theory Spec2Isabelle
  imports Complex_Main "HOL-Library.Word" "HOL-Library.Log_Nat"
begin

section \<open>Double arithmetic\<close>

text \<open>
  A \<^verbatim>\<open>double\<close> is a real number with a significand of 53 bits. \<open>round_double\<close> is the
  rounding of IEEE 754 binary64 arithmetic: to the nearest such number, a tie to the one
  with the even significand, with the fixed spacing \<open>2^-1074\<close> of the subnormal range.
  Overflow to infinity and NaN are outside the model. \<open>floor_log2 x\<close> is the exponent of
  a positive \<open>x\<close>: the \<open>e\<close> with \<open>2^e \<le> x < 2^(e+1)\<close>.
\<close>

definition floor_log2 :: "real \<Rightarrow> int" where
  "floor_log2 x = (if x \<ge> 1 then bitlen \<lfloor>x\<rfloor> - 1 else - bitlen (\<lceil>1 / x\<rceil> - 1))"

definition pow2 :: "int \<Rightarrow> real" where
  "pow2 k = (if k \<ge> 0 then 2 ^ nat k else 1 / 2 ^ nat (- k))"

definition round_half_even :: "real \<Rightarrow> int" where
  "round_half_even x =
     (let f = \<lfloor>x\<rfloor>; d = x - of_int f
      in if d < 1 / 2 then f else if d > 1 / 2 then f + 1 else if even f then f else f + 1)"

definition round_double :: "real \<Rightarrow> real" where
  "round_double x =
     (if x = 0 then 0
      else (let k = max (floor_log2 \<bar>x\<bar> - 52) (- 1074)
            in of_int (round_half_even (x / pow2 k)) * pow2 k))"

text \<open>The operations \<^verbatim>\<open>-\<close>, \<^verbatim>\<open>*\<close> and \<^verbatim>\<open>/\<close> on doubles: the exact result, rounded.\<close>

definition double_sub :: "real \<Rightarrow> real \<Rightarrow> real" where
  "double_sub a b = round_double (a - b)"

definition double_mul :: "real \<Rightarrow> real \<Rightarrow> real" where
  "double_mul a b = round_double (a * b)"

definition double_div :: "real \<Rightarrow> real \<Rightarrow> real" where
  "double_div a b = round_double (a / b)"

section \<open>PID regulator\<close>

text \<open>
  The controller of \<^verbatim>\<open>struct PID\<close>. The C++ fields are \<^verbatim>\<open>double\<close>. In \<open>step\<close>, \<open>reset\<close>
  and \<open>set_integrator_limits\<close> they are real numbers and the arithmetic is exact: what is
  proved of them rests on comparisons and on the clamps, which rounding does not change.
  \<open>set_setpoint\<close> and \<open>step_derivative\<close> are in double arithmetic, every operation
  rounded, since what holds of them depends on the rounding. The defaults are those of
  the member initialisers.
\<close>

record pid =
  kp :: real
  ki :: real
  kd :: real
  setpoint :: real
  integ :: real
  prev_err :: real
  integ_min :: real
  integ_max :: real
  last_proportional :: real
  last_integral :: real
  last_derivative :: real
  last_error :: real

definition PID_init :: pid where
  "PID_init = \<lparr> kp = 1 / 10, ki = 0, kd = 0, setpoint = 0, integ = 0, prev_err = 0,
     integ_min = - 1000000, integ_max = 1000000,
     last_proportional = 0, last_integral = 0, last_derivative = 0, last_error = 0 \<rparr>"

text \<open>The conditional integration of \<^verbatim>\<open>PID::step\<close>: the new value of \<^verbatim>\<open>integ\<close>.\<close>

definition conditional_integ :: "pid \<Rightarrow> real \<Rightarrow> real \<Rightarrow> real \<Rightarrow> real \<Rightarrow> real \<Rightarrow> real" where
  "conditional_integ p error proportional dt out_min out_max =
     (if dt > 0 then
        (let tentative_integ = max (integ_min p) (min (integ_max p) (integ p + error * dt));
             tentative_output = proportional + ki p * tentative_integ
         in if tentative_output \<ge> out_min \<and> tentative_output \<le> out_max then tentative_integ
            else (let current_output = proportional + ki p * integ p
                  in if (tentative_output > out_max \<and> current_output > tentative_output) \<or>
                        (tentative_output < out_min \<and> current_output < tentative_output)
                     then tentative_integ
                     else integ p))
      else integ p)"

text \<open>The derivative on the error; the division happens under the guard only.\<close>

definition derivative_term :: "pid \<Rightarrow> real \<Rightarrow> real \<Rightarrow> real" where
  "derivative_term p error dt =
     (if dt > 1 / 1000000000 \<and> kd p \<noteq> 0 then kd p * (error - prev_err p) / dt else 0)"

text \<open>\<^verbatim>\<open>PID::step\<close>: the updated controller and the returned output.\<close>

definition step :: "pid \<Rightarrow> real \<Rightarrow> real \<Rightarrow> real \<Rightarrow> real \<Rightarrow> pid \<times> real" where
  "step p measurement dt out_min out_max =
     (let error = setpoint p - measurement;
          proportional = kp p * error;
          integ' = conditional_integ p error proportional dt out_min out_max;
          integral = ki p * integ';
          derivative = derivative_term p error dt;
          output = proportional + integral + derivative
      in (p\<lparr> integ := integ', prev_err := error,
              last_proportional := proportional, last_integral := integral,
              last_derivative := derivative, last_error := error \<rparr>,
          max out_min (min out_max output)))"

definition reset :: "pid \<Rightarrow> pid" where
  "reset p = p\<lparr> integ := 0, prev_err := 0, last_proportional := 0, last_integral := 0,
                last_derivative := 0, last_error := 0 \<rparr>"

text \<open>\<^verbatim>\<open>PID::set_setpoint\<close>, in double arithmetic.\<close>

definition set_setpoint :: "pid \<Rightarrow> real \<Rightarrow> bool \<Rightarrow> pid" where
  "set_setpoint p new_setpoint reset_derivative =
     (let p1 = (if reset_derivative
                then p\<lparr> prev_err :=
                       double_sub new_setpoint (double_sub (setpoint p) (prev_err p)) \<rparr>
                else p)
      in p1\<lparr> setpoint := new_setpoint \<rparr>)"

text \<open>
  The derivative term that \<^verbatim>\<open>PID::step\<close> computes and stores in \<^verbatim>\<open>last_derivative\<close>
  (the error of line 122 and lines 160 to 165), in double arithmetic. The literal
  \<^verbatim>\<open>1e-9\<close> is the double nearest to it.
\<close>

definition step_derivative :: "pid \<Rightarrow> real \<Rightarrow> real \<Rightarrow> real" where
  "step_derivative p measurement dt =
     (let error = double_sub (setpoint p) measurement
      in if dt > round_double (1 / 1000000000) \<and> kd p \<noteq> 0
         then double_div (double_mul (kd p) (double_sub error (prev_err p))) dt
         else 0)"

definition set_integrator_limits :: "pid \<Rightarrow> real \<Rightarrow> real \<Rightarrow> pid" where
  "set_integrator_limits p min_val max_val =
     p\<lparr> integ_min := min_val, integ_max := max_val,
        integ := max min_val (min max_val (integ p)) \<rparr>"

definition integ_in_window :: "pid \<Rightarrow> bool" where
  "integ_in_window p \<longleftrightarrow> integ_min p \<le> integ p \<and> integ p \<le> integ_max p"


section \<open>Limits and the simple hardware ports\<close>

record limits =
  magnet_min :: real
  magnet_max :: real

definition Limits_init :: limits where
  "Limits_init = \<lparr> magnet_min = - 2, magnet_max = 2 \<rparr>"

definition clamp :: "limits \<Rightarrow> real \<Rightarrow> real" where
  "clamp l v = (if v < magnet_min l then magnet_min l
                else if v > magnet_max l then magnet_max l else v)"

text \<open>
  \<^verbatim>\<open>struct BPM\<close>, the position sensor. \<^verbatim>\<open>read\<close> draws a Gaussian sample from the
  random generator; the sample is an argument of the model.
\<close>

record bpm =
  phase :: real
  omega :: real
  offset :: real
  step_dt :: real

definition BPM_init :: bpm where
  "BPM_init = \<lparr> phase = 0, omega = 2 * pi * 5, offset = 0, step_dt = 1 / 1000 \<rparr>"

definition inject_offset :: "bpm \<Rightarrow> real \<Rightarrow> bpm" where
  "inject_offset b o' = b\<lparr> offset := o' \<rparr>"

definition bpm_read :: "bpm \<Rightarrow> real \<Rightarrow> bpm \<times> real" where
  "bpm_read b gauss =
     (let b' = b\<lparr> phase := phase b + omega b * step_dt b \<rparr>
      in (b', sin (phase b') * (1 / 2) + offset b' + gauss))"

text \<open>\<^verbatim>\<open>struct BIC\<close>: the reading is a Poisson sample, an argument of the model.\<close>

record bic =
  mean :: real

definition BIC_init :: bic where
  "BIC_init = \<lparr> mean = 10000 \<rparr>"

definition bic_read :: "bic \<Rightarrow> nat \<Rightarrow> real" where
  "bic_read b poisson = real poisson"

text \<open>\<^verbatim>\<open>struct Magnet\<close>, the actuator.\<close>

record magnet =
  current :: real

definition Magnet_init :: magnet where
  "Magnet_init = \<lparr> current = 0 \<rparr>"

definition magnet_set :: "magnet \<Rightarrow> real \<Rightarrow> magnet" where
  "magnet_set m v = m\<lparr> current := v \<rparr>"

definition magnet_get :: "magnet \<Rightarrow> real" where
  "magnet_get m = current m"

section \<open>Beam loss monitor\<close>

text \<open>
  \<^verbatim>\<open>class BeamLossMonitor\<close>. The two \<^verbatim>\<open>std::function\<close> members are modelled by a flag
  (is a callback registered) and by the call the monitor makes, returned as an event.
  The counters are \<^verbatim>\<open>uint64_t\<close>.
\<close>

record blm =
  blm_id :: string
  loss_rate :: real
  threshold_warning :: real
  threshold_abort :: real
  warning_active :: bool
  abort_active :: bool
  total_measurements :: "64 word"
  warning_count :: "64 word"
  abort_count :: "64 word"
  warning_callback :: bool
  abort_callback :: bool

datatype blm_event = Warning_call string real | Abort_call string real

definition BeamLossMonitor :: "string \<Rightarrow> blm" where
  "BeamLossMonitor ident = \<lparr> blm_id = ident, loss_rate = 0,
     threshold_warning = 1 / 1000000, threshold_abort = 1 / 100000,
     warning_active = False, abort_active = False,
     total_measurements = 0, warning_count = 0, abort_count = 0,
     warning_callback = False, abort_callback = False \<rparr>"

definition simulated_loss :: "real \<Rightarrow> real \<Rightarrow> real" where
  "simulated_loss beam_current beam_position =
     (let position_factor = 1 + \<bar>beam_position\<bar> * (1 / 10);
          current_factor = beam_current / 1000;
          base_loss = 1 / 100000000
      in base_loss * position_factor * current_factor)"

definition update_measurement :: "blm \<Rightarrow> real \<Rightarrow> real \<Rightarrow> blm \<times> bool \<times> blm_event list" where
  "update_measurement b beam_current beam_position =
     (let loss = simulated_loss beam_current beam_position;
          b1 = b\<lparr> total_measurements := total_measurements b + 1, loss_rate := loss \<rparr>;
          warning_triggered = (loss > threshold_warning b1);
          abort_triggered = (loss > threshold_abort b1)
      in if abort_triggered \<and> \<not> abort_active b1 then
           (b1\<lparr> abort_active := True, abort_count := abort_count b1 + 1 \<rparr>, False,
            if abort_callback b1 then [Abort_call (blm_id b1) loss] else [])
         else
           (let fire = (warning_triggered \<and> \<not> warning_active b1);
                b2 = (if fire
                      then b1\<lparr> warning_active := True, warning_count := warning_count b1 + 1 \<rparr>
                      else b1);
                b3 = (if \<not> warning_triggered then b2\<lparr> warning_active := False \<rparr> else b2);
                b4 = (if \<not> abort_triggered then b3\<lparr> abort_active := False \<rparr> else b3)
            in (b4, True,
                if fire \<and> warning_callback b1 then [Warning_call (blm_id b1) loss] else [])))"

definition reset_statistics :: "blm \<Rightarrow> blm" where
  "reset_statistics b = b\<lparr> total_measurements := 0, warning_count := 0, abort_count := 0,
     warning_active := False, abort_active := False \<rparr>"

section \<open>Machine protection system\<close>

text \<open>
  \<^verbatim>\<open>class MachineProtectionSystem\<close>. The system-wide callbacks are again a flag each;
  every call the MPS makes to one of them is returned, in order, as an event. The text of
  a warning alarm contains \<^verbatim>\<open>std::to_string\<close> of the loss rate and is kept structured.
\<close>

record mps =
  blms :: "blm list"
  beam_permit :: bool
  abort_triggered :: bool
  total_aborts :: "64 word"
  beam_abort_callback :: bool
  alarm_callback :: bool

datatype alarm_text = Abort_text string | Warning_text string real

datatype mps_event = Beam_abort_call | Alarm_call alarm_text

definition trigger_beam_abort :: "mps \<Rightarrow> string \<Rightarrow> string \<Rightarrow> mps \<times> mps_event list" where
  "trigger_beam_abort m reason source =
     (m\<lparr> abort_triggered := True, beam_permit := False, total_aborts := total_aborts m + 1 \<rparr>,
      (if beam_abort_callback m then [Beam_abort_call] else []) @
      (if alarm_callback m
       then [Alarm_call (Abort_text (''BEAM ABORT: '' @ reason @
               (if source \<noteq> [] then '' (Source: '' @ source @ '')'' else [])))]
       else []))"

definition handle_blm_warning :: "mps \<Rightarrow> string \<Rightarrow> real \<Rightarrow> mps \<times> mps_event list" where
  "handle_blm_warning m ident rate =
     (m, if alarm_callback m then [Alarm_call (Warning_text ident rate)] else [])"

definition handle_blm_abort :: "mps \<Rightarrow> string \<Rightarrow> real \<Rightarrow> mps \<times> mps_event list" where
  "handle_blm_abort m ident rate = trigger_beam_abort m ''BLM_THRESHOLD_EXCEEDED'' ident"

text \<open>The lambdas that \<^verbatim>\<open>add_blm\<close> registers on each monitor.\<close>

fun blm_callbacks :: "mps \<Rightarrow> blm_event list \<Rightarrow> mps \<times> mps_event list" where
  "blm_callbacks m [] = (m, [])"
| "blm_callbacks m (Warning_call ident rate # es) =
     (let (m1, out1) = handle_blm_warning m ident rate;
          (m2, out2) = blm_callbacks m1 es
      in (m2, out1 @ out2))"
| "blm_callbacks m (Abort_call ident rate # es) =
     (let (m1, out1) = handle_blm_abort m ident rate;
          (m2, out2) = blm_callbacks m1 es
      in (m2, out1 @ out2))"

definition add_blm :: "mps \<Rightarrow> string \<Rightarrow> real \<Rightarrow> mps" where
  "add_blm m ident position =
     m\<lparr> blms := blms m @ [(BeamLossMonitor ident)\<lparr> warning_callback := True,
                                                    abort_callback := True \<rparr>] \<rparr>"

definition MachineProtectionSystem :: mps where
  "MachineProtectionSystem =
     add_blm (add_blm (add_blm
       \<lparr> blms = [], beam_permit = True, abort_triggered = False, total_aborts = 0,
         beam_abort_callback = False, alarm_callback = False \<rparr>
       ''BLM_UPSTREAM'' (- 5)) ''BLM_TARGET'' 0) ''BLM_DOWNSTREAM'' 5"

text \<open>
  The loop of \<^verbatim>\<open>check_safety\<close> over the monitors still to visit. It returns the MPS
  flags and counter, the monitors as updated, \<^verbatim>\<open>all_safe\<close> and the callbacks made.
  The \<^verbatim>\<open>break\<close> leaves the monitors after the unsafe one untouched.
\<close>

fun check_blms :: "mps \<Rightarrow> blm list \<Rightarrow> real \<Rightarrow> real \<Rightarrow> mps \<times> blm list \<times> bool \<times> mps_event list" where
  "check_blms m [] beam_current beam_position = (m, [], True, [])"
| "check_blms m (b # bs) beam_current beam_position =
     (let (b', blm_safe, calls) = update_measurement b beam_current beam_position;
          (m1, out1) = blm_callbacks m calls
      in if \<not> blm_safe then
           (let (m2, out2) = trigger_beam_abort m1 ''BLM_ABORT'' (blm_id b')
            in (m2, b' # bs, False, out1 @ out2))
         else
           (let (m3, bs', all_safe, out3) = check_blms m1 bs beam_current beam_position
            in (m3, b' # bs', all_safe, out1 @ out3)))"

definition check_safety :: "mps \<Rightarrow> real \<Rightarrow> real \<Rightarrow> mps \<times> bool \<times> mps_event list" where
  "check_safety m beam_current beam_position =
     (if \<not> beam_permit m then (m, False, [])
      else if abort_triggered m then (m, False, [])
      else (let (m', bs', all_safe, out) = check_blms m (blms m) beam_current beam_position
            in (m'\<lparr> blms := bs' \<rparr>, all_safe, out)))"

definition reset_mps :: "mps \<Rightarrow> mps" where
  "reset_mps m = m\<lparr> abort_triggered := False, beam_permit := True,
                    blms := map reset_statistics (blms m) \<rparr>"

definition set_beam_abort_callback :: "mps \<Rightarrow> mps" where
  "set_beam_abort_callback m = m\<lparr> beam_abort_callback := True \<rparr>"

definition set_alarm_callback :: "mps \<Rightarrow> mps" where
  "set_alarm_callback m = m\<lparr> alarm_callback := True \<rparr>"

definition is_beam_permitted :: "mps \<Rightarrow> bool" where
  "is_beam_permitted m \<longleftrightarrow> beam_permit m \<and> \<not> abort_triggered m"

definition is_abort_active :: "mps \<Rightarrow> bool" where
  "is_abort_active m \<longleftrightarrow> abort_triggered m"

definition get_abort_count :: "mps \<Rightarrow> 64 word" where
  "get_abort_count m = total_aborts m"


section \<open>Command payloads\<close>

text \<open>
  The value that \<^verbatim>\<open>json::parse(s, nullptr, false)\<close> returns: the parser is the JSON
  library's, so the model starts from its result. \<open>Discarded\<close> is the result for a text
  that does not parse. An object is the list of its members, looked up by key.
\<close>

datatype json =
    Null
  | Boolean bool
  | Number real
  | String string
  | Array "json list"
  | Object "(string \<times> json) list"
  | Discarded

datatype error = Type_error

fun is_object :: "json \<Rightarrow> bool" where
  "is_object (Object kv) = True"
| "is_object j = False"

text \<open>\<^verbatim>\<open>j[key]\<close> on an object: the member, or null when there is none.\<close>

fun member :: "json \<Rightarrow> string \<Rightarrow> json" where
  "member (Object kv) key = (case map_of kv key of Some v \<Rightarrow> v | None \<Rightarrow> Null)"
| "member j key = Null"

text \<open>\<^verbatim>\<open>j.contains(key)\<close>.\<close>

fun contains :: "json \<Rightarrow> string \<Rightarrow> bool" where
  "contains (Object kv) key = (map_of kv key \<noteq> None)"
| "contains j key = False"

text \<open>
  \<^verbatim>\<open>j.value(key, default)\<close> at type \<^verbatim>\<open>double\<close> and at type \<^verbatim>\<open>bool\<close>: the default when
  the key is absent, a type error (an exception) when the member has another type.
\<close>

fun value_number :: "json \<Rightarrow> string \<Rightarrow> real \<Rightarrow> error + real" where
  "value_number (Object kv) key dflt =
     (case map_of kv key of
        None \<Rightarrow> Inr dflt
      | Some (Number x) \<Rightarrow> Inr x
      | Some _ \<Rightarrow> Inl Type_error)"
| "value_number j key dflt = Inl Type_error"

fun value_bool :: "json \<Rightarrow> string \<Rightarrow> bool \<Rightarrow> error + bool" where
  "value_bool (Object kv) key dflt =
     (case map_of kv key of
        None \<Rightarrow> Inr dflt
      | Some (Boolean b) \<Rightarrow> Inr b
      | Some _ \<Rightarrow> Inl Type_error)"
| "value_bool j key dflt = Inl Type_error"

text \<open>A reply is a string literal of the source or the dump of a JSON value.\<close>

datatype reply = Text string | Dump json

definition ok_true :: reply where
  "ok_true = Text ''{\"ok\":true}''"

definition ok_false :: reply where
  "ok_false = Text ''{\"ok\":false}''"

definition recognized_commands :: "string list" where
  "recognized_commands = [''set_pid'', ''set_freq'', ''set_setpoint'', ''recommission'',
     ''emergency_stop'', ''enable_control'', ''get_status'']"

section \<open>Real-time loop\<close>

text \<open>
  \<^verbatim>\<open>struct RTLoop\<close> with the machine protection system. The ports behind \<^verbatim>\<open>api\<close>,
  \<^verbatim>\<open>bpm_ref\<close> and \<^verbatim>\<open>magnet_ref\<close> are the objects the program wires together: one
  position sensor, one intensity counter, one magnet.
\<close>

record rtloop =
  bpm_ref :: bpm
  bic_ref :: bic
  magnet_ref :: magnet
  pid :: pid
  lim :: limits
  running :: bool
  hz :: real
  control_enabled :: bool
  emergency_stop :: bool
  loop_count :: "64 word"
  deadline_misses :: "64 word"
  mps :: mps

text \<open>\<^verbatim>\<open>(long long)(1e9/hz)\<close>: the conversion truncates towards zero.\<close>

definition truncate_ll :: "real \<Rightarrow> int" where
  "truncate_ll x = (if x \<ge> 0 then \<lfloor>x\<rfloor> else \<lceil>x\<rceil>)"

definition period_of :: "real \<Rightarrow> int" where
  "period_of f = truncate_ll (1000000000 / f)"

definition RTLoop :: "bpm \<Rightarrow> bic \<Rightarrow> magnet \<Rightarrow> rtloop" where
  "RTLoop b c m = \<lparr> bpm_ref = b, bic_ref = c, magnet_ref = m, pid = PID_init,
     lim = Limits_init, running = True, hz = 1000, control_enabled = True,
     emergency_stop = False, loop_count = 0, deadline_misses = 0,
     mps = set_alarm_callback (set_beam_abort_callback MachineProtectionSystem) \<rparr>"

text \<open>
  Operations that write the actuator return the values written, in order, next to the
  new state.
\<close>

definition set_magnet :: "rtloop \<Rightarrow> real \<Rightarrow> rtloop \<times> real list" where
  "set_magnet st v = (st\<lparr> magnet_ref := magnet_set (magnet_ref st) v \<rparr>, [v])"

text \<open>The callbacks the constructor registers on the MPS, run on the calls it made.\<close>

fun mps_callbacks :: "rtloop \<Rightarrow> mps_event list \<Rightarrow> rtloop \<times> real list" where
  "mps_callbacks st [] = (st, [])"
| "mps_callbacks st (Beam_abort_call # es) =
     (let (st1, w1) = set_magnet (st\<lparr> emergency_stop := True, control_enabled := False \<rparr>) 0;
          (st2, w2) = mps_callbacks st1 es
      in (st2, w1 @ w2))"
| "mps_callbacks st (Alarm_call text # es) = mps_callbacks st es"

text \<open>Lines 87 to 93 of \<^verbatim>\<open>run\<close>: the protection check.\<close>

definition mps_phase :: "rtloop \<Rightarrow> real \<Rightarrow> real \<Rightarrow> rtloop \<times> bool \<times> real list" where
  "mps_phase st intensity pos =
     (let (m', mps_safe, calls) = check_safety (mps st) intensity pos;
          (st1, w) = mps_callbacks (st\<lparr> mps := m' \<rparr>) calls;
          st2 = (if \<not> mps_safe
                 then st1\<lparr> emergency_stop := True, control_enabled := False \<rparr>
                 else st1)
      in (st2, mps_safe, w))"

text \<open>Lines 95 to 105: the control phase; the second component is the value commanded.\<close>

definition control_phase :: "rtloop \<Rightarrow> real \<Rightarrow> int \<Rightarrow> rtloop \<times> real" where
  "control_phase st pos period_ns =
     (if control_enabled st \<and> \<not> emergency_stop st then
        (let dt = real_of_int period_ns / 1000000000;
             (p', u) = step (pid st) pos dt (magnet_min (lim st)) (magnet_max (lim st));
             (st1, w) = set_magnet (st\<lparr> pid := p' \<rparr>) u
         in (st1\<lparr> bpm_ref := inject_offset (bpm_ref st1) (- (4 / 10) * u) \<rparr>, u))
      else (fst (set_magnet st 0), 0))"


text \<open>
  \<^verbatim>\<open>handle_cmd\<close> on the parsed payload. It returns the loop, the period (the reference
  argument), the reply and the actuator writes; a type error of \<^verbatim>\<open>value\<close> leaves the
  function as an exception.
\<close>

definition status_of :: "rtloop \<Rightarrow> json" where
  "status_of st = Object
     [(''ok'', Boolean True),
      (''loop_frequency'', Number (hz st)),
      (''loop_count'', Number (real (unat (loop_count st)))),
      (''deadline_misses'', Number (real (unat (deadline_misses st)))),
      (''control_enabled'', Boolean (control_enabled st)),
      (''emergency_stop'', Boolean (emergency_stop st)),
      (''mps_safe'', Boolean (is_beam_permitted (mps st))),
      (''mps_abort_count'', Number (real (unat (get_abort_count (mps st))))),
      (''pid_gains'', Object [(''kp'', Number (kp (pid st))), (''ki'', Number (ki (pid st))),
                              (''kd'', Number (kd (pid st)))]),
      (''setpoint'', Number (setpoint (pid st)))]"

definition cmd_set_pid :: "json \<Rightarrow> rtloop \<Rightarrow> error + rtloop" where
  "cmd_set_pid j st =
     (case value_number j ''kp'' (kp (pid st)) of
        Inl e \<Rightarrow> Inl e
      | Inr kp' \<Rightarrow>
          (case value_number j ''ki'' (ki (pid st)) of
             Inl e \<Rightarrow> Inl e
           | Inr ki' \<Rightarrow>
               (case value_number j ''kd'' (kd (pid st)) of
                  Inl e \<Rightarrow> Inl e
                | Inr kd' \<Rightarrow> Inr (st\<lparr> pid := (pid st)\<lparr> kp := kp', ki := ki', kd := kd' \<rparr> \<rparr>))))"

definition cmd_recommission :: "rtloop \<Rightarrow> rtloop \<times> real list" where
  "cmd_recommission st =
     (st\<lparr> pid := (pid st)\<lparr> integ := 0, prev_err := 0 \<rparr>,
          magnet_ref := magnet_set (magnet_ref st) 0,
          bpm_ref := inject_offset (bpm_ref st) 0,
          emergency_stop := False,
          control_enabled := True,
          mps := reset_mps (mps st) \<rparr>, [0])"

definition cmd_emergency_stop :: "rtloop \<Rightarrow> rtloop \<times> real list" where
  "cmd_emergency_stop st = set_magnet (st\<lparr> emergency_stop := True, control_enabled := False \<rparr>) 0"

definition cmd_enable_control :: "bool \<Rightarrow> rtloop \<Rightarrow> rtloop \<times> real list" where
  "cmd_enable_control enable st =
     (if \<not> emergency_stop st then
        (let st1 = st\<lparr> control_enabled := enable \<rparr>
         in if \<not> enable then set_magnet st1 0 else (st1, []))
      else (st, []))"

definition handle_cmd :: "json \<Rightarrow> rtloop \<Rightarrow> int \<Rightarrow> error + (rtloop \<times> int \<times> reply \<times> real list)" where
  "handle_cmd j st period_ns =
     (if \<not> is_object j then Inr (st, period_ns, ok_false, [])
      else if member j ''cmd'' = String ''set_pid'' then
        (case cmd_set_pid j st of
           Inl e \<Rightarrow> Inl e
         | Inr st' \<Rightarrow> Inr (st', period_ns, ok_true, []))
      else if member j ''cmd'' = String ''set_freq'' then
        (case value_number j ''hz'' (hz st) of
           Inl e \<Rightarrow> Inl e
         | Inr requested \<Rightarrow>
             (let new_hz = max 10 (min 2000 requested)
              in Inr (st\<lparr> hz := new_hz \<rparr>, period_of new_hz, ok_true, [])))
      else if member j ''cmd'' = String ''set_setpoint'' then
        (case value_number j ''sp'' 0 of
           Inl e \<Rightarrow> Inl e
         | Inr sp \<Rightarrow> Inr (st\<lparr> pid := (pid st)\<lparr> setpoint := sp \<rparr> \<rparr>, period_ns, ok_true, []))
      else if member j ''cmd'' = String ''recommission'' then
        (let (st', w) = cmd_recommission st in Inr (st', period_ns, ok_true, w))
      else if member j ''cmd'' = String ''emergency_stop'' then
        (let (st', w) = cmd_emergency_stop st in Inr (st', period_ns, ok_true, w))
      else if member j ''cmd'' = String ''enable_control'' then
        (case value_bool j ''enable'' True of
           Inl e \<Rightarrow> Inl e
         | Inr enable \<Rightarrow>
             (let (st', w) = cmd_enable_control enable st in Inr (st', period_ns, ok_true, w)))
      else if member j ''cmd'' = String ''get_status'' then
        Inr (st, period_ns, Dump (status_of st), [])
      else Inr (st, period_ns, ok_false, []))"

text \<open>
  The body of the loop in \<^verbatim>\<open>run\<close> down to the cycle counter: sensors, protection,
  control, watchdog verdict. The arguments after the period are what the pass takes from
  outside: the two random samples of the sensors and the verdict of the watchdog.
  Telemetry is output only and is left out. The result holds every actuator write of the
  pass, in order: those of the abort callback, then the one of the control phase.
\<close>

definition control_pass :: "rtloop \<Rightarrow> int \<Rightarrow> real \<Rightarrow> nat \<Rightarrow> bool \<Rightarrow> rtloop \<times> real list" where
  "control_pass st period_ns gauss poisson deadline_missed =
     (let (b', pos) = bpm_read (bpm_ref st) gauss;
          intensity = bic_read (bic_ref st) poisson;
          (st1, mps_safe, w1) = mps_phase (st\<lparr> bpm_ref := b' \<rparr>) intensity pos;
          (st2, u) = control_phase st1 pos period_ns;
          st3 = (if deadline_missed
                 then st2\<lparr> deadline_misses := deadline_misses st2 + 1 \<rparr> else st2)
      in (st3\<lparr> loop_count := loop_count st3 + 1 \<rparr>, w1 @ [u]))"

text \<open>The whole pass: then the request, when one is pending, is handled and answered.\<close>

definition iteration ::
  "rtloop \<Rightarrow> int \<Rightarrow> real \<Rightarrow> nat \<Rightarrow> bool \<Rightarrow> json option \<Rightarrow>
     error + (rtloop \<times> int \<times> real list \<times> reply option)" where
  "iteration st period_ns gauss poisson deadline_missed request =
     (let (st4, w) = control_pass st period_ns gauss poisson deadline_missed
      in case request of
           None \<Rightarrow> Inr (st4, period_ns, w, None)
         | Some j \<Rightarrow>
             (case handle_cmd j st4 period_ns of
                Inl e \<Rightarrow> Inl e
              | Inr (st5, period_ns', r, w2) \<Rightarrow> Inr (st5, period_ns', w @ w2, Some r)))"

section \<open>The instrumented loop\<close>

text \<open>
  The second \<^verbatim>\<open>class RTLoop\<close> of the repository, with \<^verbatim>\<open>handle_command\<close>. Its
  \<^verbatim>\<open>ControlAPI\<close> and \<^verbatim>\<open>Limits\<close> are not among the sources, so the hardware is a state of
  any type and the operations called on it, with the clamps of the limits, are
  parameters. Member names carry a prime for the trailing underscore.
\<close>

record 'hw ports =
  api_emergency_stop :: "'hw \<Rightarrow> 'hw"
  bpm_set_beam_position :: "real \<Rightarrow> real \<Rightarrow> 'hw \<Rightarrow> 'hw"
  clamp_pid_gains :: "real \<Rightarrow> real \<Rightarrow> real \<Rightarrow> real \<times> real \<times> real"
  clamp_frequency :: "real \<Rightarrow> real"

record 'hw rtloop' =
  hw' :: 'hw
  pid' :: pid
  running' :: bool
  loop_frequency' :: real
  loop_count' :: "64 word"
  deadline_misses' :: "64 word"
  avg_loop_time' :: real
  max_loop_time' :: real
  last_loop_time' :: real
  control_enabled' :: bool
  emergency_stop' :: bool

text \<open>The constructor: the gains, the setpoint and the integrator limits it sets.\<close>

definition RTLoop' :: "'hw \<Rightarrow> 'hw rtloop'" where
  "RTLoop' h = \<lparr> hw' = h,
     pid' = set_integrator_limits
              (PID_init\<lparr> kp := 6 / 10, ki := 5 / 100, kd := 0, setpoint := 0 \<rparr>) (- 10) 10,
     running' = True, loop_frequency' = 1000, loop_count' = 0, deadline_misses' = 0,
     avg_loop_time' = 0, max_loop_time' = 0, last_loop_time' = 0,
     control_enabled' = True, emergency_stop' = False \<rparr>"

definition status_of' :: "'hw rtloop' \<Rightarrow> json" where
  "status_of' st = Object
     [(''ok'', Boolean True),
      (''loop_frequency'', Number (loop_frequency' st)),
      (''loop_count'', Number (real (unat (loop_count' st)))),
      (''deadline_misses'', Number (real (unat (deadline_misses' st)))),
      (''avg_loop_time_ms'', Number (avg_loop_time' st)),
      (''max_loop_time_ms'', Number (max_loop_time' st)),
      (''control_enabled'', Boolean (control_enabled' st)),
      (''emergency_stop'', Boolean (emergency_stop' st)),
      (''pid_gains'', Object [(''kp'', Number (kp (pid' st))), (''ki'', Number (ki (pid' st))),
                              (''kd'', Number (kd (pid' st)))]),
      (''setpoint'', Number (setpoint (pid' st)))]"

definition json_error_reply :: reply where
  "json_error_reply = Text ''{\"ok\": false, \"error\": \"JSON parse error\"}''"

text \<open>
  \<^verbatim>\<open>handle_command\<close>; \<open>Discarded\<close> stands for a text on which \<^verbatim>\<open>json::parse\<close> throws. Every
  exception of the JSON library is caught and answered.
\<close>

definition handle_command :: "'hw ports \<Rightarrow> json \<Rightarrow> 'hw rtloop' \<Rightarrow> 'hw rtloop' \<times> reply" where
  "handle_command io command st =
     (if command = Discarded then (st, json_error_reply)
      else if \<not> is_object command \<or> \<not> contains command ''cmd''
      then (st, Text ''{\"ok\": false, \"error\": \"Invalid command format\"}'')
      else case member command ''cmd'' of
        String cmd \<Rightarrow>
          (if cmd = ''set_pid'' then
             (case (value_number command ''kp'' (kp (pid' st)),
                    value_number command ''ki'' (ki (pid' st)),
                    value_number command ''kd'' (kd (pid' st))) of
                (Inr a, Inr b, Inr c) \<Rightarrow>
                  (let (kp', ki', kd') = clamp_pid_gains io a b c
                   in (st\<lparr> pid' := (pid' st)\<lparr> kp := kp', ki := ki', kd := kd' \<rparr> \<rparr>,
                       Text ''{\"ok\": true, \"message\": \"PID gains updated\"}''))
              | _ \<Rightarrow> (st, json_error_reply))
           else if cmd = ''set_freq'' then
             (case value_number command ''hz'' (loop_frequency' st) of
                Inr f \<Rightarrow> (st\<lparr> loop_frequency' := clamp_frequency io f \<rparr>,
                          Text ''{\"ok\": true, \"message\": \"Frequency updated\"}'')
              | Inl e \<Rightarrow> (st, json_error_reply))
           else if cmd = ''set_setpoint'' then
             (case value_number command ''sp'' 0 of
                Inr sp \<Rightarrow> (st\<lparr> pid' := set_setpoint (pid' st) sp True \<rparr>,
                           Text ''{\"ok\": true, \"message\": \"Setpoint updated\"}'')
              | Inl e \<Rightarrow> (st, json_error_reply))
           else if cmd = ''recommission'' then
             (st\<lparr> pid' := (reset (pid' st))\<lparr> setpoint := 0 \<rparr>,
                  hw' := bpm_set_beam_position io 0 0 (api_emergency_stop io (hw' st)),
                  emergency_stop' := False,
                  control_enabled' := True,
                  deadline_misses' := 0,
                  loop_count' := 0 \<rparr>,
              Text ''{\"ok\": true, \"message\": \"System recommissioned\"}'')
           else if cmd = ''emergency_stop'' then
             (st\<lparr> emergency_stop' := True, hw' := api_emergency_stop io (hw' st) \<rparr>,
              Text ''{\"ok\": true, \"message\": \"Emergency stop activated\"}'')
           else if cmd = ''enable_control'' then
             (case value_bool command ''enable'' True of
                Inr enable \<Rightarrow>
                  (st\<lparr> control_enabled' := enable,
                       hw' := (if \<not> enable then api_emergency_stop io (hw' st) else hw' st) \<rparr>,
                   Text ''{\"ok\": true, \"message\": \"Control enable updated\"}'')
              | Inl e \<Rightarrow> (st, json_error_reply))
           else if cmd = ''get_status'' then (st, Dump (status_of' st))
           else if cmd = ''stop'' then
             (st\<lparr> running' := False \<rparr>,
              Text ''{\"ok\": true, \"message\": \"Stopping control loop\"}'')
           else (st, Text ''{\"ok\": false, \"error\": \"Unknown command\"}''))
      | _ \<Rightarrow> (st, json_error_reply))"


section \<open>Predicates of the properties\<close>

text \<open>
  A monitor trips on a measurement when the derived loss rate is above its abort
  threshold and its own abort flag is not yet set: the branch of
  \<^verbatim>\<open>update_measurement\<close> that reports an unsafe condition.
\<close>

definition trips :: "blm \<Rightarrow> real \<Rightarrow> real \<Rightarrow> bool" where
  "trips b beam_current beam_position \<longleftrightarrow>
     simulated_loss beam_current beam_position > threshold_abort b \<and> \<not> abort_active b"

section \<open>Properties of the PID regulator\<close>

lemma clamp_bounds:
  fixes lo hi x :: real
  assumes "lo \<le> hi"
  shows "lo \<le> max lo (min hi x)" and "max lo (min hi x) \<le> hi"
  using assms by (simp_all add: max_def min_def)

lemma if_two_values:
  "(if a then (if b then x else (if c then x else y)) else y) = y \<or>
   (if a then (if b then x else (if c then x else y)) else y) = x"
  by simp

lemma conditional_integ_cases:
  "conditional_integ p e pr dt lo hi = integ p \<or>
   conditional_integ p e pr dt lo hi = max (integ_min p) (min (integ_max p) (integ p + e * dt))"
  unfolding conditional_integ_def Let_def by (rule if_two_values)

lemma conditional_integ_window:
  assumes "integ_in_window p"
  shows "integ_min p \<le> conditional_integ p e pr dt lo hi"
    and "conditional_integ p e pr dt lo hi \<le> integ_max p"
proof -
  from assms have w: "integ_min p \<le> integ p" "integ p \<le> integ_max p"
    by (simp_all add: integ_in_window_def)
  then have o: "integ_min p \<le> integ_max p" by linarith
  note c = clamp_bounds [OF o, of "integ p + e * dt"]
  from conditional_integ_cases [of p e pr dt lo hi]
  show "integ_min p \<le> conditional_integ p e pr dt lo hi"
  proof
    assume "conditional_integ p e pr dt lo hi = integ p"
    with w show ?thesis by simp
  next
    assume "conditional_integ p e pr dt lo hi =
              max (integ_min p) (min (integ_max p) (integ p + e * dt))"
    with c show ?thesis by simp
  qed
  from conditional_integ_cases [of p e pr dt lo hi]
  show "conditional_integ p e pr dt lo hi \<le> integ_max p"
  proof
    assume "conditional_integ p e pr dt lo hi = integ p"
    with w show ?thesis by simp
  next
    assume "conditional_integ p e pr dt lo hi =
              max (integ_min p) (min (integ_max p) (integ p + e * dt))"
    with c show ?thesis by simp
  qed
qed

lemma step_integ:
  "integ (fst (step p y dt lo hi)) =
     conditional_integ p (setpoint p - y) (kp p * (setpoint p - y)) dt lo hi"
  by (simp add: step_def Let_def)

lemma step_integ_limits:
  "integ_min (fst (step p y dt lo hi)) = integ_min p"
  "integ_max (fst (step p y dt lo hi)) = integ_max p"
  by (simp_all add: step_def Let_def)

lemma step_last_derivative:
  "last_derivative (fst (step p y dt lo hi)) = derivative_term p (setpoint p - y) dt"
  by (simp add: step_def Let_def)

lemma step_output:
  "snd (step p y dt lo hi) =
     max lo (min hi (kp p * (setpoint p - y)
       + ki p * conditional_integ p (setpoint p - y) (kp p * (setpoint p - y)) dt lo hi
       + derivative_term p (setpoint p - y) dt))"
  by (simp add: step_def Let_def)

lemma step_output_range:
  assumes "lo \<le> hi"
  shows "lo \<le> snd (step p y dt lo hi) \<and> snd (step p y dt lo hi) \<le> hi"
  using clamp_bounds [OF assms] by (simp add: step_output)

text \<open>
  C4, as the code has it. The integrator stays inside the configured window under
  \<^verbatim>\<open>step\<close>, for every measurement, time step and output bounds, when it was inside
  before; \<^verbatim>\<open>set_integrator_limits\<close> puts it inside the new window when the new limits
  are ordered; \<^verbatim>\<open>reset\<close> sets it to zero, which is inside the window when the window
  contains zero.
\<close>

theorem integrator_window_preserved:
  "(integ_in_window p \<longrightarrow> integ_in_window (fst (step p y dt lo hi))) \<and>
   (min_val \<le> max_val \<longrightarrow> integ_in_window (set_integrator_limits p min_val max_val)) \<and>
   (integ_min p \<le> 0 \<and> 0 \<le> integ_max p \<longrightarrow>
      integ (reset p) = 0 \<and> integ_in_window (reset p))"
proof (intro conjI impI)
  assume "integ_in_window p"
  from conditional_integ_window [OF this]
  show "integ_in_window (fst (step p y dt lo hi))"
    by (simp add: integ_in_window_def step_integ step_integ_limits)
next
  assume "min_val \<le> max_val"
  then show "integ_in_window (set_integrator_limits p min_val max_val)"
    by (simp add: integ_in_window_def set_integrator_limits_def clamp_bounds)
next
  assume "integ_min p \<le> 0 \<and> 0 \<le> integ_max p"
  then show "integ_in_window (reset p)"
    by (simp add: integ_in_window_def reset_def)
next
  show "integ (reset p) = 0" by (simp add: reset_def)
qed

theorem integrator_window_preserved_witness:
  "integ_in_window PID_init \<and> integ_in_window (fst (step PID_init 1 (1 / 1000) (- 2) 2)) \<and>
   (- 10 :: real) \<le> 10 \<and> integ_in_window (set_integrator_limits PID_init (- 10) 10) \<and>
   integ_min PID_init \<le> 0 \<and> 0 \<le> integ_max PID_init \<and> integ_in_window (reset PID_init)"
proof -
  have h: "integ_in_window PID_init" "integ_min PID_init \<le> 0" "0 \<le> integ_max PID_init"
    by (simp_all add: integ_in_window_def PID_init_def)
  with integrator_window_preserved [of PID_init 1 "1 / 1000" "- 2" 2 "- 10" 10]
  show ?thesis by simp
qed

text \<open>
  C4, as stated, fails: with the window [1, 5] and the integrator at 2, inside it,
  \<^verbatim>\<open>reset\<close> leaves the integrator at 0, outside the window.
\<close>

theorem reset_leaves_window_counterexample:
  "integ_in_window (PID_init\<lparr> integ_min := 1, integ_max := 5, integ := 2 \<rparr>) \<and>
   \<not> integ_in_window (reset (PID_init\<lparr> integ_min := 1, integ_max := 5, integ := 2 \<rparr>))"
  by (simp add: integ_in_window_def reset_def PID_init_def)

text \<open>The exponent that \<open>round_double\<close> takes brackets its argument.\<close>

lemma floor_log2_ge1:
  assumes "x \<ge> 1"
  shows "pow2 (floor_log2 x) \<le> x \<and> x < pow2 (floor_log2 x + 1)"
proof -
  let ?n = "\<lfloor>x\<rfloor>"
  from assms have n: "?n > 0" by linarith
  from bitlen_bounds [OF n] have b: "2 ^ nat (bitlen ?n - 1) \<le> ?n" "?n < 2 ^ nat (bitlen ?n)"
    by simp_all
  have bl: "bitlen ?n \<ge> 1" using n by (simp add: bitlen_alt_def)
  have l: "2 ^ nat (bitlen ?n - 1) \<le> x" using b(1) by (simp add: le_floor_iff)
  have u: "x < 2 ^ nat (bitlen ?n)" using b(2) by (simp add: floor_less_iff)
  show ?thesis using l u bl assms by (simp add: floor_log2_def pow2_def)
qed

lemma floor_log2_lt1:
  assumes "0 < x" "x < 1"
  shows "pow2 (floor_log2 x) \<le> x \<and> x < pow2 (floor_log2 x + 1)"
proof -
  let ?m = "\<lceil>1 / x\<rceil> - 1"
  have y: "1 / x > 1" using assms by simp
  then have m: "?m > 0" by linarith
  from bitlen_bounds [OF m] have b: "2 ^ nat (bitlen ?m - 1) \<le> ?m" "?m < 2 ^ nat (bitlen ?m)"
    by simp_all
  have bl: "bitlen ?m \<ge> 1" using m by (simp add: bitlen_alt_def)
  have "\<lceil>1 / x\<rceil> \<le> 2 ^ nat (bitlen ?m)" using b(2) by linarith
  then have "1 / x \<le> 2 ^ nat (bitlen ?m)" by (simp add: ceiling_le_iff)
  then have l: "1 / 2 ^ nat (bitlen ?m) \<le> x" using assms(1)
    by (simp add: field_simps)
  have "2 ^ nat (bitlen ?m - 1) < \<lceil>1 / x\<rceil>" using b(1) by linarith
  then have "2 ^ nat (bitlen ?m - 1) < 1 / x" by (simp add: less_ceiling_iff)
  then have u: "x < 1 / 2 ^ nat (bitlen ?m - 1)" using assms(1)
    by (simp add: field_simps)
  have e: "floor_log2 x = - bitlen ?m" using assms by (simp add: floor_log2_def)
  have p1: "pow2 (- bitlen ?m) = 1 / 2 ^ nat (bitlen ?m)" using bl by (simp add: pow2_def)
  have p2: "pow2 (1 - bitlen ?m) = 1 / 2 ^ nat (bitlen ?m - 1)"
  proof (cases "bitlen ?m = 1")
    case True then show ?thesis by (simp add: pow2_def)
  next
    case False
    with bl have g: "bitlen ?m > 1" by linarith
    then have "nat (- (1 - bitlen ?m)) = nat (bitlen ?m - 1)" by simp
    with g show ?thesis by (simp add: pow2_def)
  qed
  have e1: "floor_log2 x + 1 = 1 - bitlen ?m" by (simp add: e)
  from l have "pow2 (floor_log2 x) \<le> x" by (simp only: e p1)
  moreover from u have "x < pow2 (floor_log2 x + 1)" by (simp only: e1 p2)
  ultimately show ?thesis by simp
qed

text \<open>Equations that evaluate \<open>round_double\<close> on numerals.\<close>

lemma bitlen_numeral: "bitlen (numeral n) = bitlen (numeral n div 2) + 1"
  by (subst compute_bitlen) simp

lemma bitlen_one: "bitlen 1 = 1"
  by (subst compute_bitlen) simp

lemmas double_eval = round_double_def floor_log2_def round_half_even_def pow2_def
  double_sub_def double_mul_def double_div_def Let_def bitlen_numeral bitlen_one

lemma set_setpoint_fields:
  "prev_err (set_setpoint p sp_new True) =
     double_sub sp_new (double_sub (setpoint p) (prev_err p))"
  "setpoint (set_setpoint p sp_new True) = sp_new"
  "kd (set_setpoint p sp_new True) = kd p"
  by (simp_all add: set_setpoint_def)

text \<open>
  C9, as the code has it. A setpoint change with the reset-derivative option moves
  \<^verbatim>\<open>prev_err\<close> to \<open>sp_new - (sp_old - prev_err)\<close> as computed in double arithmetic. When
  no rounding occurs in these two subtractions and in the errors \<open>sp_new - y\<close> and
  \<open>sp_old - y\<close> of the next step, \<^verbatim>\<open>prev_err\<close> is exactly \<open>sp_new - (sp_old - prev_err)\<close>
  and the derivative term of the next step is the one the step would have produced, on
  the same measurement, without the change.
\<close>

theorem set_setpoint_bumpless_when_exact:
  "prev_err (set_setpoint p sp_new True) =
     double_sub sp_new (double_sub (setpoint p) (prev_err p)) \<and>
   (round_double (setpoint p - prev_err p) = setpoint p - prev_err p \<and>
    round_double (sp_new - (setpoint p - prev_err p)) = sp_new - (setpoint p - prev_err p) \<and>
    round_double (sp_new - y) = sp_new - y \<and>
    round_double (setpoint p - y) = setpoint p - y \<longrightarrow>
      prev_err (set_setpoint p sp_new True) = sp_new - (setpoint p - prev_err p) \<and>
      step_derivative (set_setpoint p sp_new True) y dt = step_derivative p y dt)"
proof (intro conjI impI)
  show "prev_err (set_setpoint p sp_new True) =
          double_sub sp_new (double_sub (setpoint p) (prev_err p))"
    by (rule set_setpoint_fields)
next
  assume h: "round_double (setpoint p - prev_err p) = setpoint p - prev_err p \<and>
    round_double (sp_new - (setpoint p - prev_err p)) = sp_new - (setpoint p - prev_err p) \<and>
    round_double (sp_new - y) = sp_new - y \<and>
    round_double (setpoint p - y) = setpoint p - y"
  then show q: "prev_err (set_setpoint p sp_new True) = sp_new - (setpoint p - prev_err p)"
    by (simp add: set_setpoint_fields double_sub_def)
  have a: "sp_new - y - (sp_new - (setpoint p - prev_err p)) = setpoint p - y - prev_err p"
    by simp
  have "double_sub (double_sub (setpoint (set_setpoint p sp_new True)) y)
          (prev_err (set_setpoint p sp_new True)) =
        double_sub (double_sub (setpoint p) y) (prev_err p)"
    using h by (simp only: q set_setpoint_fields(2) double_sub_def a)
  then show "step_derivative (set_setpoint p sp_new True) y dt = step_derivative p y dt"
    by (simp only: step_derivative_def set_setpoint_fields(3) Let_def)
qed

theorem set_setpoint_bumpless_when_exact_witness:
  "round_double (setpoint (PID_init\<lparr> kd := 1, prev_err := 1 \<rparr>)
     - prev_err (PID_init\<lparr> kd := 1, prev_err := 1 \<rparr>)) = - 1 \<and>
   round_double (2 - (setpoint (PID_init\<lparr> kd := 1, prev_err := 1 \<rparr>)
     - prev_err (PID_init\<lparr> kd := 1, prev_err := 1 \<rparr>))) = 3 \<and>
   round_double (2 - 0) = 2 \<and>
   round_double (setpoint (PID_init\<lparr> kd := 1, prev_err := 1 \<rparr>) - 0) = 0 \<and>
   prev_err (set_setpoint (PID_init\<lparr> kd := 1, prev_err := 1 \<rparr>) 2 True) = 3 \<and>
   step_derivative (PID_init\<lparr> kd := 1, prev_err := 1 \<rparr>) 0 (round_double (1 / 1000)) = - 1000 \<and>
   step_derivative (set_setpoint (PID_init\<lparr> kd := 1, prev_err := 1 \<rparr>) 2 True) 0
     (round_double (1 / 1000)) = - 1000"
proof -
  have h: "round_double (setpoint (PID_init\<lparr> kd := 1, prev_err := 1 \<rparr>)
       - prev_err (PID_init\<lparr> kd := 1, prev_err := 1 \<rparr>)) = - 1"
    "round_double (2 - (setpoint (PID_init\<lparr> kd := 1, prev_err := 1 \<rparr>)
       - prev_err (PID_init\<lparr> kd := 1, prev_err := 1 \<rparr>))) = 3"
    "round_double (2 - 0) = 2"
    "round_double (setpoint (PID_init\<lparr> kd := 1, prev_err := 1 \<rparr>) - 0) = 0"
    by (simp_all add: PID_init_def double_eval)
  have d: "step_derivative (PID_init\<lparr> kd := 1, prev_err := 1 \<rparr>) 0 (round_double (1 / 1000))
             = - 1000"
    by (simp add: step_derivative_def PID_init_def double_eval)
  from set_setpoint_bumpless_when_exact
         [of "PID_init\<lparr> kd := 1, prev_err := 1 \<rparr>" 2 0 "round_double (1 / 1000)"] h d
  show ?thesis by (simp add: PID_init_def)
qed

text \<open>
  C9, as stated, fails. With \<open>kd = 1\<close>, setpoint 0 and \<^verbatim>\<open>prev_err = 1\<close>,
  \<^verbatim>\<open>set_setpoint(1e17)\<close> stores \<^verbatim>\<open>prev_err = 1e17\<close>, since \<open>1e17 + 1\<close> rounds to \<open>1e17\<close>;
  the step on the measurement 0 with \<open>dt\<close> the double \<^verbatim>\<open>0.001\<close> then has the derivative
  term 0, and without the setpoint change it has the derivative term -1000.
\<close>

theorem set_setpoint_bumpless_counterexample:
  "prev_err (set_setpoint (PID_init\<lparr> kd := 1, prev_err := 1 \<rparr>) 100000000000000000 True)
     = 100000000000000000 \<and>
   step_derivative (set_setpoint (PID_init\<lparr> kd := 1, prev_err := 1 \<rparr>) 100000000000000000 True)
     0 (round_double (1 / 1000)) = 0 \<and>
   step_derivative (PID_init\<lparr> kd := 1, prev_err := 1 \<rparr>) 0 (round_double (1 / 1000)) = - 1000 \<and>
   step_derivative (set_setpoint (PID_init\<lparr> kd := 1, prev_err := 1 \<rparr>) 100000000000000000 True)
     0 (round_double (1 / 1000)) \<noteq>
   step_derivative (PID_init\<lparr> kd := 1, prev_err := 1 \<rparr>) 0 (round_double (1 / 1000))"
  by (simp add: set_setpoint_def step_derivative_def PID_init_def double_eval)

text \<open>
  C10. \<^verbatim>\<open>step\<close> has a result for every input. The derivative term is the quotient by
  \<open>dt\<close> only when \<open>dt > 1e-9\<close> and \<open>kd \<noteq> 0\<close>, and 0 otherwise; when \<open>dt \<le> 0\<close> the
  integrator is unchanged and the output is the clamped sum of the proportional and the
  integral term.
\<close>

theorem step_guards:
  "(\<not> (dt > 1 / 1000000000 \<and> kd p \<noteq> 0) \<longrightarrow> last_derivative (fst (step p y dt lo hi)) = 0) \<and>
   (dt > 1 / 1000000000 \<and> kd p \<noteq> 0 \<longrightarrow>
      last_derivative (fst (step p y dt lo hi)) = kd p * ((setpoint p - y) - prev_err p) / dt) \<and>
   (dt \<le> 0 \<longrightarrow> integ (fst (step p y dt lo hi)) = integ p \<and>
      snd (step p y dt lo hi) = max lo (min hi (kp p * (setpoint p - y) + ki p * integ p)))"
proof (intro conjI impI)
  assume "dt \<le> 0"
  then have d: "derivative_term p (setpoint p - y) dt = 0"
    and i: "conditional_integ p (setpoint p - y) (kp p * (setpoint p - y)) dt lo hi = integ p"
    by (simp_all add: derivative_term_def conditional_integ_def)
  show "integ (fst (step p y dt lo hi)) = integ p" by (simp add: step_integ i)
  show "snd (step p y dt lo hi) = max lo (min hi (kp p * (setpoint p - y) + ki p * integ p))"
    by (simp add: step_output i d)
qed (simp_all add: step_last_derivative derivative_term_def)

theorem step_guards_witness:
  "\<not> ((0 :: real) > 1 / 1000000000 \<and> kd (PID_init\<lparr> kd := 1 \<rparr>) \<noteq> 0) \<and> (0 :: real) \<le> 0 \<and>
   last_derivative (fst (step (PID_init\<lparr> kd := 1 \<rparr>) 1 0 (- 2) 2)) = 0 \<and>
   integ (fst (step (PID_init\<lparr> kd := 1 \<rparr>) 1 0 (- 2) 2)) = 0 \<and>
   snd (step (PID_init\<lparr> kd := 1 \<rparr>) 1 0 (- 2) 2) = - (1 / 10) \<and>
   ((1 / 1000 :: real) > 1 / 1000000000 \<and> kd (PID_init\<lparr> kd := 1 \<rparr>) \<noteq> 0) \<and>
   last_derivative (fst (step (PID_init\<lparr> kd := 1 \<rparr>) 1 (1 / 1000) (- 2) 2)) = - 1000"
  using step_guards [of 0 "PID_init\<lparr> kd := 1 \<rparr>" 1 "- 2" 2]
        step_guards [of "1 / 1000" "PID_init\<lparr> kd := 1 \<rparr>" 1 "- 2" 2]
  by (simp add: PID_init_def)


section \<open>Properties of the position sensor\<close>

text \<open>
  C5, as the code has it. \<^verbatim>\<open>inject_offset\<close> replaces the stored offset: after
  \<^verbatim>\<open>inject_offset(a)\<close> and then \<^verbatim>\<open>inject_offset(b)\<close> the offset is \<open>b\<close>, and the next
  read returns the oscillation plus \<open>b\<close> plus the noise sample.
\<close>

theorem inject_offset_replaces:
  "offset (inject_offset (inject_offset s a) b) = b \<and>
   snd (bpm_read (inject_offset (inject_offset s a) b) gauss) =
     sin (phase s + omega s * step_dt s) * (1 / 2) + b + gauss"
  by (simp add: bpm_read_def inject_offset_def Let_def)

text \<open>
  C5, as stated, fails: from the initial sensor, after \<^verbatim>\<open>inject_offset(1)\<close> and
  \<^verbatim>\<open>inject_offset(2)\<close> the next read is higher by 2, not by 1 + 2, than the read
  without the injections (same noise sample).
\<close>

theorem inject_offset_additive_counterexample:
  "snd (bpm_read (inject_offset (inject_offset BPM_init 1) 2) 0) - snd (bpm_read BPM_init 0)
     \<noteq> 1 + 2"
  by (simp add: bpm_read_def inject_offset_def BPM_init_def Let_def)

section \<open>Properties of the machine protection system\<close>

lemma update_measurement_trips:
  assumes "trips b c pos"
  shows "fst (snd (update_measurement b c pos)) = False"
    and "snd (snd (update_measurement b c pos)) =
           (if abort_callback b then [Abort_call (blm_id b) (simulated_loss c pos)] else [])"
  using assms by (simp_all add: update_measurement_def trips_def Let_def)

lemma update_measurement_safe:
  assumes "\<not> trips b c pos"
  shows "fst (snd (update_measurement b c pos)) = True"
    and "snd (snd (update_measurement b c pos)) = [] \<or>
         (\<exists>i r. snd (snd (update_measurement b c pos)) = [Warning_call i r])"
  using assms by (simp_all add: update_measurement_def trips_def Let_def)

lemma blm_callbacks_nil_or_warning:
  assumes "es = [] \<or> (\<exists>i r. es = [Warning_call i r])"
  shows "fst (blm_callbacks m es) = m"
    and "Beam_abort_call \<notin> set (snd (blm_callbacks m es))"
  using assms by (auto simp: handle_blm_warning_def)

text \<open>
  When some monitor of the list trips, the abort is triggered twice: by the abort callback
  of the monitor and by the loop of \<^verbatim>\<open>check_safety\<close>.
\<close>

lemma check_blms_trip:
  assumes "\<exists>b \<in> set bs. trips b c pos" and "\<forall>b \<in> set bs. abort_callback b"
  shows "total_aborts (fst (check_blms m bs c pos)) = total_aborts m + 2 \<and>
         abort_triggered (fst (check_blms m bs c pos)) \<and>
         \<not> beam_permit (fst (check_blms m bs c pos)) \<and>
         \<not> fst (snd (snd (check_blms m bs c pos))) \<and>
         count_list (snd (snd (snd (check_blms m bs c pos)))) Beam_abort_call =
           (if beam_abort_callback m then 2 else 0)"
  using assms
proof (induction bs)
  case Nil
  then show ?case by simp
next
  case (Cons b bs)
  show ?case
  proof (cases "trips b c pos")
    case True
    from Cons.prems(2) have cb: "abort_callback b" by simp
    show ?thesis
      using update_measurement_trips [OF True] cb
      by (simp add: case_prod_unfold Let_def handle_blm_abort_def trigger_beam_abort_def)
  next
    case False
    with Cons.prems have ex: "\<exists>b \<in> set bs. trips b c pos"
      and al: "\<forall>b \<in> set bs. abort_callback b"
      by auto
    note IH = Cons.IH [OF ex al]
    note s = update_measurement_safe [OF False]
    note k = blm_callbacks_nil_or_warning [OF s(2), of m]
    have cnt: "count_list (snd (blm_callbacks m (snd (snd (update_measurement b c pos)))))
                 Beam_abort_call = 0"
      using k(2) by (simp add: count_list_0_iff)
    show ?thesis
      using IH s(1) k(1) cnt by (simp add: case_prod_unfold Let_def)
  qed
qed

lemma check_safety_trip:
  assumes "beam_permit m" and "\<not> abort_triggered m"
      and "\<exists>b \<in> set (blms m). trips b c pos" and "\<forall>b \<in> set (blms m). abort_callback b"
  shows "total_aborts (fst (check_safety m c pos)) = total_aborts m + 2 \<and>
         abort_triggered (fst (check_safety m c pos)) \<and>
         \<not> beam_permit (fst (check_safety m c pos)) \<and>
         \<not> fst (snd (check_safety m c pos)) \<and>
         count_list (snd (snd (check_safety m c pos))) Beam_abort_call =
           (if beam_abort_callback m then 2 else 0)"
  using assms(1,2) check_blms_trip [OF assms(3,4), of m]
  by (simp add: check_safety_def case_prod_unfold Let_def)

text \<open>
  C3, on the code. The MPS as the loop constructs it (three monitors, both callbacks
  registered) is not latched; \<^verbatim>\<open>check_safety(1e7, 0.0)\<close> derives the loss rate 1e-4, above
  the abort threshold 1e-5. The call latches the abort and withdraws the permit, but it
  leaves \<^verbatim>\<open>total_aborts\<close> at 2 and calls the beam abort callback twice.
\<close>

theorem check_safety_abort_counted_twice:
  "\<not> abort_triggered (set_alarm_callback (set_beam_abort_callback MachineProtectionSystem)) \<and>
   total_aborts (set_alarm_callback (set_beam_abort_callback MachineProtectionSystem)) = 0 \<and>
   simulated_loss 10000000 0 = 1 / 10000 \<and>
   abort_triggered (fst (check_safety
     (set_alarm_callback (set_beam_abort_callback MachineProtectionSystem)) 10000000 0)) \<and>
   \<not> beam_permit (fst (check_safety
     (set_alarm_callback (set_beam_abort_callback MachineProtectionSystem)) 10000000 0)) \<and>
   total_aborts (fst (check_safety
     (set_alarm_callback (set_beam_abort_callback MachineProtectionSystem)) 10000000 0)) = 2 \<and>
   snd (snd (check_safety
     (set_alarm_callback (set_beam_abort_callback MachineProtectionSystem)) 10000000 0)) =
     [Beam_abort_call,
      Alarm_call (Abort_text ''BEAM ABORT: BLM_THRESHOLD_EXCEEDED (Source: BLM_UPSTREAM)''),
      Beam_abort_call,
      Alarm_call (Abort_text ''BEAM ABORT: BLM_ABORT (Source: BLM_UPSTREAM)'')]"
  by (simp add: check_safety_def MachineProtectionSystem_def add_blm_def BeamLossMonitor_def
      set_alarm_callback_def set_beam_abort_callback_def update_measurement_def
      simulated_loss_def trigger_beam_abort_def handle_blm_abort_def Let_def)


section \<open>Properties of the control loop\<close>

lemma mps_callbacks_writes: "set (snd (mps_callbacks st es)) \<subseteq> {0}"
proof (induction es arbitrary: st)
  case Nil
  show ?case by simp
next
  case (Cons e es)
  show ?case
    using Cons.IH by (cases e) (simp_all add: set_magnet_def case_prod_unfold Let_def)
qed

lemma mps_callbacks_lim: "lim (fst (mps_callbacks st es)) = lim st"
proof (induction es arbitrary: st)
  case Nil
  show ?case by simp
next
  case (Cons e es)
  show ?case
    using Cons.IH by (cases e) (simp_all add: set_magnet_def case_prod_unfold Let_def)
qed

lemma mps_callbacks_disabled:
  "\<not> control_enabled st \<or> emergency_stop st \<Longrightarrow>
   \<not> control_enabled (fst (mps_callbacks st es)) \<or> emergency_stop (fst (mps_callbacks st es))"
proof (induction es arbitrary: st)
  case Nil
  then show ?case by simp
next
  case (Cons e es)
  show ?case
  proof (cases e)
    case Beam_abort_call
    have "\<not> control_enabled (fst (mps_callbacks
            (st\<lparr>emergency_stop := True, control_enabled := False,
                 magnet_ref := magnet_set (magnet_ref st) 0\<rparr>) es)) \<or>
          emergency_stop (fst (mps_callbacks
            (st\<lparr>emergency_stop := True, control_enabled := False,
                 magnet_ref := magnet_set (magnet_ref st) 0\<rparr>) es))"
      by (rule Cons.IH) simp
    then show ?thesis
      using Beam_abort_call by (simp add: set_magnet_def case_prod_unfold Let_def)
  next
    case (Alarm_call t)
    then show ?thesis using Cons.IH [OF Cons.prems] by simp
  qed
qed

lemma mps_phase_fst:
  "fst (mps_phase st intensity pos) =
     (let r = check_safety (mps st) intensity pos;
          st1 = fst (mps_callbacks (st\<lparr> mps := fst r \<rparr>) (snd (snd r)))
      in if \<not> fst (snd r) then st1\<lparr> emergency_stop := True, control_enabled := False \<rparr>
         else st1)"
  by (simp add: mps_phase_def Let_def case_prod_unfold)

lemma mps_phase_safe:
  "fst (snd (mps_phase st intensity pos)) = fst (snd (check_safety (mps st) intensity pos))"
  by (simp add: mps_phase_def Let_def case_prod_unfold)

lemma mps_phase_writes: "set (snd (snd (mps_phase st intensity pos))) \<subseteq> {0}"
  using mps_callbacks_writes by (simp add: mps_phase_def Let_def case_prod_unfold)

lemma mps_phase_lim: "lim (fst (mps_phase st intensity pos)) = lim st"
  by (simp add: mps_phase_fst Let_def mps_callbacks_lim)

lemma mps_phase_unsafe:
  "\<not> fst (snd (check_safety (mps st) intensity pos)) \<Longrightarrow>
   \<not> control_enabled (fst (mps_phase st intensity pos))"
  by (simp add: mps_phase_fst Let_def)

lemma mps_phase_disabled:
  assumes "\<not> control_enabled st \<or> emergency_stop st"
  shows "\<not> control_enabled (fst (mps_phase st intensity pos)) \<or>
         emergency_stop (fst (mps_phase st intensity pos))"
proof -
  have "\<not> control_enabled (st\<lparr> mps := m \<rparr>) \<or> emergency_stop (st\<lparr> mps := m \<rparr>)" for m
    using assms by simp
  from mps_callbacks_disabled [OF this]
  show ?thesis by (simp add: mps_phase_fst Let_def)
qed

lemma control_phase_inactive:
  "\<not> control_enabled st \<or> emergency_stop st \<Longrightarrow>
   control_phase st pos period_ns = (st\<lparr> magnet_ref := magnet_set (magnet_ref st) 0 \<rparr>, 0)"
  by (auto simp: control_phase_def set_magnet_def)

lemma control_phase_value:
  "snd (control_phase st pos period_ns) =
     (if control_enabled st \<and> \<not> emergency_stop st
      then snd (step (pid st) pos (real_of_int period_ns / 1000000000)
                 (magnet_min (lim st)) (magnet_max (lim st)))
      else 0)"
  by (simp add: control_phase_def Let_def case_prod_unfold set_magnet_def)

lemma control_phase_current:
  "current (magnet_ref (fst (control_phase st pos period_ns))) =
     snd (control_phase st pos period_ns)"
  by (simp add: control_phase_def Let_def case_prod_unfold set_magnet_def magnet_set_def)

lemma control_phase_range:
  assumes "magnet_min (lim st) \<le> 0" "0 \<le> magnet_max (lim st)"
  shows "magnet_min (lim st) \<le> snd (control_phase st pos period_ns) \<and>
         snd (control_phase st pos period_ns) \<le> magnet_max (lim st)"
proof -
  from assms have "magnet_min (lim st) \<le> magnet_max (lim st)" by linarith
  from step_output_range [OF this] assms show ?thesis
    by (simp add: control_phase_value)
qed

lemma control_pass_writes:
  "snd (control_pass st period_ns gauss poisson deadline_missed) =
     (let b = bpm_read (bpm_ref st) gauss;
          r = mps_phase (st\<lparr> bpm_ref := fst b \<rparr>) (bic_read (bic_ref st) poisson) (snd b)
      in snd (snd r) @ [snd (control_phase (fst r) (snd b) period_ns)])"
  by (simp add: control_pass_def Let_def case_prod_unfold)

lemma handle_cmd_writes:
  assumes "handle_cmd j st period_ns = Inr (st', period_ns', r, w)"
  shows "set w \<subseteq> {0}"
  using assms
  by (auto simp: handle_cmd_def cmd_recommission_def cmd_emergency_stop_def
        cmd_enable_control_def set_magnet_def Let_def
      split: if_splits sum.splits prod.splits)


lemma mps_callbacks_pid: "pid (fst (mps_callbacks st es)) = pid st"
proof (induction es arbitrary: st)
  case Nil
  show ?case by simp
next
  case (Cons e es)
  show ?case
    using Cons.IH by (cases e) (simp_all add: set_magnet_def case_prod_unfold Let_def)
qed

lemma mps_phase_pid: "pid (fst (mps_phase st intensity pos)) = pid st"
  by (simp add: mps_phase_fst Let_def mps_callbacks_pid)

text \<open>
  C1. With \<open>magnet_min \<le> 0 \<le> magnet_max\<close>, every value written to the actuator in a
  pass of the loop lies in \<open>[magnet_min, magnet_max]\<close>. When control is active the value
  commanded is the output of \<^verbatim>\<open>PID::step\<close>, which is clamped to the bounds it is given;
  when control is inactive it is 0. The writes of the abort callback and of the command
  handler are writes of 0.
\<close>

theorem actuator_write_within_limits:
  assumes "magnet_min (lim st) \<le> 0" and "0 \<le> magnet_max (lim st)"
  shows "snd (control_phase st pos period_ns) =
           (if control_enabled st \<and> \<not> emergency_stop st
            then snd (step (pid st) pos (real_of_int period_ns / 1000000000)
                       (magnet_min (lim st)) (magnet_max (lim st)))
            else 0) \<and>
         (out_min \<le> out_max \<longrightarrow>
            out_min \<le> snd (step p y dt out_min out_max) \<and>
            snd (step p y dt out_min out_max) \<le> out_max) \<and>
         magnet_min (lim st) \<le> snd (control_phase st pos period_ns) \<and>
         snd (control_phase st pos period_ns) \<le> magnet_max (lim st) \<and>
         (\<forall>v \<in> set (snd (control_pass st period_ns gauss poisson deadline_missed)).
            magnet_min (lim st) \<le> v \<and> v \<le> magnet_max (lim st)) \<and>
         (\<forall>st' period_ns' r w. handle_cmd j st period_ns = Inr (st', period_ns', r, w) \<longrightarrow>
            (\<forall>v \<in> set w. magnet_min (lim st) \<le> v \<and> v \<le> magnet_max (lim st)))"
proof (intro conjI)
  show "snd (control_phase st pos period_ns) =
           (if control_enabled st \<and> \<not> emergency_stop st
            then snd (step (pid st) pos (real_of_int period_ns / 1000000000)
                       (magnet_min (lim st)) (magnet_max (lim st)))
            else 0)"
    by (rule control_phase_value)
  show "out_min \<le> out_max \<longrightarrow>
          out_min \<le> snd (step p y dt out_min out_max) \<and>
          snd (step p y dt out_min out_max) \<le> out_max"
    using step_output_range by blast
  from control_phase_range [OF assms]
  show "magnet_min (lim st) \<le> snd (control_phase st pos period_ns)"
    and "snd (control_phase st pos period_ns) \<le> magnet_max (lim st)"
    by simp_all
  show "\<forall>v \<in> set (snd (control_pass st period_ns gauss poisson deadline_missed)).
          magnet_min (lim st) \<le> v \<and> v \<le> magnet_max (lim st)"
  proof
    fix v
    assume v: "v \<in> set (snd (control_pass st period_ns gauss poisson deadline_missed))"
    define b where "b = bpm_read (bpm_ref st) gauss"
    define r where "r = mps_phase (st\<lparr> bpm_ref := fst b \<rparr>) (bic_read (bic_ref st) poisson) (snd b)"
    from v have "v \<in> set (snd (snd r)) \<or> v = snd (control_phase (fst r) (snd b) period_ns)"
      by (auto simp: control_pass_writes Let_def b_def r_def)
    then show "magnet_min (lim st) \<le> v \<and> v \<le> magnet_max (lim st)"
    proof
      assume "v \<in> set (snd (snd r))"
      with mps_phase_writes have "v = 0" unfolding r_def by blast
      with assms show ?thesis by simp
    next
      assume u: "v = snd (control_phase (fst r) (snd b) period_ns)"
      have l: "lim (fst r) = lim st" by (simp add: r_def mps_phase_lim)
      from assms l have "magnet_min (lim (fst r)) \<le> 0" "0 \<le> magnet_max (lim (fst r))"
        by simp_all
      from control_phase_range [OF this] u l show ?thesis by simp
    qed
  qed
  show "\<forall>st' period_ns' r w. handle_cmd j st period_ns = Inr (st', period_ns', r, w) \<longrightarrow>
          (\<forall>v \<in> set w. magnet_min (lim st) \<le> v \<and> v \<le> magnet_max (lim st))"
  proof (intro allI impI ballI)
    fix st' period_ns' r w v
    assume "handle_cmd j st period_ns = Inr (st', period_ns', r, w)" and "v \<in> set w"
    with handle_cmd_writes have "v = 0" by blast
    with assms show "magnet_min (lim st) \<le> v \<and> v \<le> magnet_max (lim st)" by simp
  qed
qed

theorem actuator_write_within_limits_witness:
  "magnet_min (lim (RTLoop (BPM_init\<lparr> omega := 0 \<rparr>) BIC_init Magnet_init)) \<le> 0 \<and>
   0 \<le> magnet_max (lim (RTLoop (BPM_init\<lparr> omega := 0 \<rparr>) BIC_init Magnet_init)) \<and>
   snd (control_pass (RTLoop (BPM_init\<lparr> omega := 0 \<rparr>) BIC_init Magnet_init)
          1000000 1 10000 False) = [- (1 / 10)] \<and>
   list_all (\<lambda>v. - 2 \<le> v \<and> v \<le> 2)
     (snd (control_pass (RTLoop (BPM_init\<lparr> omega := 0 \<rparr>) BIC_init Magnet_init)
             1000000 1 10000 False)) \<and>
   (- 2 :: real) \<le> 2 \<and>
   - 2 \<le> snd (step (PID_init\<lparr> kp := 100 \<rparr>) 1 (1 / 1000) (- 2) 2) \<and>
   snd (step (PID_init\<lparr> kp := 100 \<rparr>) 1 (1 / 1000) (- 2) 2) \<le> 2 \<and>
   handle_cmd (Object [(''cmd'', String ''emergency_stop'')])
     (RTLoop (BPM_init\<lparr> omega := 0 \<rparr>) BIC_init Magnet_init) 1000000 =
     Inr ((RTLoop (BPM_init\<lparr> omega := 0 \<rparr>) BIC_init Magnet_init)
            \<lparr> emergency_stop := True, control_enabled := False \<rparr>, 1000000, ok_true, [0])"
proof -
  have l: "magnet_min (lim (RTLoop (BPM_init\<lparr> omega := 0 \<rparr>) BIC_init Magnet_init)) \<le> 0"
    "0 \<le> magnet_max (lim (RTLoop (BPM_init\<lparr> omega := 0 \<rparr>) BIC_init Magnet_init))"
    by (simp_all add: RTLoop_def Limits_init_def)
  have w: "snd (control_pass (RTLoop (BPM_init\<lparr> omega := 0 \<rparr>) BIC_init Magnet_init)
             1000000 1 10000 False) = [- (1 / 10)]"
    by (simp add: RTLoop_def control_pass_def bpm_read_def bic_read_def BPM_init_def
      mps_phase_def control_phase_def step_def conditional_integ_def derivative_term_def
      PID_init_def Limits_init_def set_magnet_def
      check_safety_def MachineProtectionSystem_def add_blm_def BeamLossMonitor_def
      set_alarm_callback_def set_beam_abort_callback_def update_measurement_def
      simulated_loss_def Let_def)
  have c: "handle_cmd (Object [(''cmd'', String ''emergency_stop'')])
     (RTLoop (BPM_init\<lparr> omega := 0 \<rparr>) BIC_init Magnet_init) 1000000 =
     Inr ((RTLoop (BPM_init\<lparr> omega := 0 \<rparr>) BIC_init Magnet_init)
            \<lparr> emergency_stop := True, control_enabled := False \<rparr>, 1000000, ok_true, [0])"
    by (simp add: handle_cmd_def cmd_emergency_stop_def set_magnet_def magnet_set_def
          RTLoop_def Magnet_init_def)
  from actuator_write_within_limits [OF l, of 1 1000000 "- 2" 2 "PID_init\<lparr> kp := 100 \<rparr>" 1
      "1 / 1000" 1 10000 False "Object [(''cmd'', String ''emergency_stop'')]"] l w c
  show ?thesis by (simp add: RTLoop_def Limits_init_def list_all_iff)
qed

text \<open>
  C2. If control is disabled or the emergency stop is set, before the protection check
  or at the start of the control phase, or if \<^verbatim>\<open>check_safety\<close> returns false, then the
  control phase of that pass commands 0, the magnet holds 0 after it, the PID is not
  stepped, and the writes of the abort callback are writes of 0.
\<close>

theorem actuator_zero_when_inactive:
  assumes "\<not> control_enabled (fst (mps_phase st intensity pos)) \<or>
           emergency_stop (fst (mps_phase st intensity pos)) \<or>
           \<not> fst (snd (check_safety (mps st) intensity pos)) \<or>
           \<not> control_enabled st \<or> emergency_stop st"
  shows "snd (control_phase (fst (mps_phase st intensity pos)) pos period_ns) = 0 \<and>
         current (magnet_ref (fst (control_phase (fst (mps_phase st intensity pos)) pos period_ns))) = 0 \<and>
         pid (fst (control_phase (fst (mps_phase st intensity pos)) pos period_ns)) = pid st \<and>
         set (snd (snd (mps_phase st intensity pos))) \<subseteq> {0}"
proof -
  let ?st1 = "fst (mps_phase st intensity pos)"
  from assms mps_phase_unsafe [of st intensity pos] mps_phase_disabled [of st intensity pos]
  have off: "\<not> control_enabled ?st1 \<or> emergency_stop ?st1" by blast
  note z = control_phase_inactive [OF off, of pos period_ns]
  have "snd (control_phase ?st1 pos period_ns) = 0" by (simp add: z)
  moreover have "current (magnet_ref (fst (control_phase ?st1 pos period_ns))) = 0"
    by (simp add: z magnet_set_def)
  moreover have "pid (fst (control_phase ?st1 pos period_ns)) = pid st"
    by (simp add: z mps_phase_pid)
  moreover note mps_phase_writes [of st intensity pos]
  ultimately show ?thesis by simp
qed

theorem actuator_zero_when_inactive_witness:
  "\<not> fst (snd (check_safety (mps (RTLoop BPM_init BIC_init Magnet_init)) 10000000 0)) \<and>
   snd (control_phase (fst (mps_phase (RTLoop BPM_init BIC_init Magnet_init) 10000000 0))
          0 1000000) = 0 \<and>
   emergency_stop ((RTLoop BPM_init BIC_init Magnet_init)\<lparr> emergency_stop := True \<rparr>) \<and>
   snd (control_phase (fst (mps_phase
          ((RTLoop BPM_init BIC_init Magnet_init)\<lparr> emergency_stop := True \<rparr>) 10000 (1 / 2)))
          (1 / 2) 1000000) = 0"
proof -
  have u: "\<not> fst (snd (check_safety (mps (RTLoop BPM_init BIC_init Magnet_init)) 10000000 0))"
    by (simp add: RTLoop_def check_safety_def MachineProtectionSystem_def add_blm_def
      BeamLossMonitor_def set_alarm_callback_def set_beam_abort_callback_def
      update_measurement_def simulated_loss_def trigger_beam_abort_def handle_blm_abort_def
      Let_def)
  have e: "emergency_stop ((RTLoop BPM_init BIC_init Magnet_init)\<lparr> emergency_stop := True \<rparr>)"
    by simp
  from actuator_zero_when_inactive [of "RTLoop BPM_init BIC_init Magnet_init" 10000000 0 1000000]
       actuator_zero_when_inactive [of "(RTLoop BPM_init BIC_init Magnet_init)\<lparr> emergency_stop := True \<rparr>"
          10000 "1 / 2" 1000000] u e
  show ?thesis by simp
qed

section \<open>Properties of the command handlers\<close>

text \<open>
  C7. A \<^verbatim>\<open>set_freq\<close> command with a numeric \<^verbatim>\<open>hz\<close> sets the frequency to the request
  clamped to [10, 2000], recomputes the period, and is answered \<^verbatim>\<open>{"ok":true}\<close>.
\<close>

theorem set_freq_clamped:
  assumes "map_of kv ''cmd'' = Some (String ''set_freq'')"
      and "map_of kv ''hz'' = Some (Number requested)"
  shows "handle_cmd (Object kv) st period_ns =
           Inr (st\<lparr> hz := max 10 (min 2000 requested) \<rparr>,
                period_of (max 10 (min 2000 requested)), Text ''{\"ok\":true}'', []) \<and>
         10 \<le> max 10 (min 2000 requested) \<and> max 10 (min 2000 requested) \<le> (2000 :: real)"
  using assms by (simp add: handle_cmd_def ok_true_def Let_def)

theorem set_freq_clamped_witness:
  "handle_cmd (Object [(''cmd'', String ''set_freq''), (''hz'', Number 5)])
     (RTLoop BPM_init BIC_init Magnet_init) 1000000 =
     Inr ((RTLoop BPM_init BIC_init Magnet_init)\<lparr> hz := 10 \<rparr>, 100000000,
          Text ''{\"ok\":true}'', []) \<and>
   handle_cmd (Object [(''hz'', Number 10000), (''cmd'', String ''set_freq'')])
     (RTLoop BPM_init BIC_init Magnet_init) 1000000 =
     Inr ((RTLoop BPM_init BIC_init Magnet_init)\<lparr> hz := 2000 \<rparr>, 500000,
          Text ''{\"ok\":true}'', [])"
  using set_freq_clamped [of "[(''cmd'', String ''set_freq''), (''hz'', Number 5)]" 5
          "RTLoop BPM_init BIC_init Magnet_init" 1000000]
        set_freq_clamped [of "[(''hz'', Number 10000), (''cmd'', String ''set_freq'')]" 10000
          "RTLoop BPM_init BIC_init Magnet_init" 1000000]
  by (simp add: period_of_def truncate_ll_def)

text \<open>
  C8. A payload that does not parse to a JSON object, or whose \<^verbatim>\<open>cmd\<close> member is not
  one of the recognized commands (or is absent), is answered \<^verbatim>\<open>{"ok":false}\<close>; the loop
  state and the period are unchanged and the actuator is not written.
\<close>

theorem unrecognized_command_rejected:
  assumes "\<not> is_object j \<or> member j ''cmd'' \<notin> String ` set recognized_commands"
  shows "handle_cmd j st period_ns = Inr (st, period_ns, Text ''{\"ok\":false}'', [])"
  using assms by (auto simp: handle_cmd_def ok_false_def recognized_commands_def)

theorem unrecognized_command_rejected_witness:
  "\<not> is_object Discarded \<and>
   handle_cmd Discarded (RTLoop BPM_init BIC_init Magnet_init) 1000000 =
     Inr (RTLoop BPM_init BIC_init Magnet_init, 1000000, Text ''{\"ok\":false}'', []) \<and>
   \<not> is_object (Array [String ''set_pid'']) \<and>
   handle_cmd (Array [String ''set_pid'']) (RTLoop BPM_init BIC_init Magnet_init) 1000000 =
     Inr (RTLoop BPM_init BIC_init Magnet_init, 1000000, Text ''{\"ok\":false}'', []) \<and>
   member (Object [(''kp'', Number 3)]) ''cmd'' \<notin> String ` set recognized_commands \<and>
   handle_cmd (Object [(''kp'', Number 3)]) (RTLoop BPM_init BIC_init Magnet_init) 1000000 =
     Inr (RTLoop BPM_init BIC_init Magnet_init, 1000000, Text ''{\"ok\":false}'', []) \<and>
   member (Object [(''cmd'', String ''stop'')]) ''cmd'' \<notin> String ` set recognized_commands \<and>
   handle_cmd (Object [(''cmd'', String ''stop'')]) (RTLoop BPM_init BIC_init Magnet_init)
     1000000 =
     Inr (RTLoop BPM_init BIC_init Magnet_init, 1000000, Text ''{\"ok\":false}'', [])"
  using unrecognized_command_rejected [of Discarded "RTLoop BPM_init BIC_init Magnet_init" 1000000]
        unrecognized_command_rejected [of "Array [String ''set_pid'']"
          "RTLoop BPM_init BIC_init Magnet_init" 1000000]
        unrecognized_command_rejected [of "Object [(''kp'', Number 3)]"
          "RTLoop BPM_init BIC_init Magnet_init" 1000000]
        unrecognized_command_rejected [of "Object [(''cmd'', String ''stop'')]"
          "RTLoop BPM_init BIC_init Magnet_init" 1000000]
  by (simp add: recognized_commands_def image_iff)

text \<open>
  \<^verbatim>\<open>handle_cmd\<close> guards \<^verbatim>\<open>enable_control\<close> by the emergency stop: while it is latched
  the loop is left as it is; otherwise \<^verbatim>\<open>control_enabled\<close> takes the value given and,
  when that is false, the actuator is written 0.
\<close>

lemma handle_cmd_enable_control:
  assumes "map_of kv ''cmd'' = Some (String ''enable_control'')"
      and "value_bool (Object kv) ''enable'' True = Inr enable"
  shows "handle_cmd (Object kv) st period_ns =
           Inr (if emergency_stop st then st
                else if enable then st\<lparr> control_enabled := True \<rparr>
                else st\<lparr> control_enabled := False,
                        magnet_ref := magnet_set (magnet_ref st) 0 \<rparr>,
                period_ns, Text ''{\"ok\":true}'',
                if \<not> emergency_stop st \<and> \<not> enable then [0] else [])"
  using assms
  by (simp add: handle_cmd_def ok_true_def cmd_enable_control_def set_magnet_def Let_def)

text \<open>
  C6, on the code. \<^verbatim>\<open>handle_command\<close> of the instrumented loop has no such guard: with
  the emergency stop latched and control disabled, \<^verbatim>\<open>{"cmd":"enable_control","enable":true}\<close>
  sets \<^verbatim>\<open>control_enabled\<close>, whatever the hardware operations are; the emergency stop stays
  latched.
\<close>

theorem handle_command_enable_ignores_emergency_stop:
  "control_enabled' (fst (handle_command io
      (Object [(''cmd'', String ''enable_control''), (''enable'', Boolean True)])
      (st\<lparr> emergency_stop' := True, control_enabled' := False \<rparr>))) \<and>
   emergency_stop' (fst (handle_command io
      (Object [(''cmd'', String ''enable_control''), (''enable'', Boolean True)])
      (st\<lparr> emergency_stop' := True, control_enabled' := False \<rparr>)))"
  by (simp add: handle_command_def)


theorem handle_command_enable_ignores_emergency_stop_witness:
  "control_enabled' (fst (handle_command
      \<lparr> api_emergency_stop = (\<lambda>h. h), bpm_set_beam_position = (\<lambda>x y h. h),
        clamp_pid_gains = (\<lambda>a b c. (a, b, c)), clamp_frequency = (\<lambda>f. f) \<rparr>
      (Object [(''cmd'', String ''enable_control''), (''enable'', Boolean True)])
      ((RTLoop' ())\<lparr> emergency_stop' := True, control_enabled' := False \<rparr>))) \<and>
   emergency_stop' ((RTLoop' ())\<lparr> emergency_stop' := True, control_enabled' := False \<rparr>) \<and>
   \<not> control_enabled' ((RTLoop' ())\<lparr> emergency_stop' := True, control_enabled' := False \<rparr>)"
  using handle_command_enable_ignores_emergency_stop
    [of "\<lparr> api_emergency_stop = (\<lambda>h. h), bpm_set_beam_position = (\<lambda>x y h. h),
           clamp_pid_gains = (\<lambda>a b c. (a, b, c)), clamp_frequency = (\<lambda>f. f) \<rparr>"
        "RTLoop' ()"]
  by simp

end
